theory Spec2Isabelle
  imports Main
begin

section \<open>The orchestration server of the sign-language pipeline\<close>

text \<open>
  The server part of the repository (the second document of \<^verbatim>\<open>App.jsx\<close>) is a Node.js
  process holding a WebSocket server, a RabbitMQ channel, a Redis client and the map
  \<^verbatim>\<open>waitingClients\<close>. Each event handler is embedded as a function from the server's
  state to its new state: the run of that handler with no other handler of the process
  running between its \<^verbatim>\<open>await\<close>s. The handler of an append frame and the consumers of
  results and dead letters have no \<^verbatim>\<open>await\<close>, so this is their only run. The aggregation
  consumer suspends twice; its pieces are given as well, so that two of its runs can
  overlap. The handler of an end-of-turn frame suspends at the two store commands; a
  frame of the same connection that arrives meanwhile is outside the functions below.
\<close>

subsection \<open>JavaScript values\<close>

text \<open>
  The values \<^verbatim>\<open>JSON.parse\<close> returns, and \<^verbatim>\<open>undefined\<close>, which a property access
  yields for a missing key. The server does no arithmetic, so a number is named by the
  text \<^verbatim>\<open>Number.prototype.toString\<close> gives for it (\<^verbatim>\<open>0.0\<close> is \<open>''0''\<close>). An object is
  the list of its own properties in insertion order.
\<close>

datatype jsval =
    JUndefined
  | JNull
  | JBool bool
  | JNum string
  | JStr string
  | JArr "jsval list"
  | JObj "(string \<times> jsval) list"

datatype exn = SyntaxError | TypeError | RedisError

text \<open>
  \<^verbatim>\<open>data.k\<close> for one of the names the server reads (\<^verbatim>\<open>type\<close>, \<^verbatim>\<open>sequence\<close>, \<^verbatim>\<open>tone\<close>,
  \<^verbatim>\<open>sentence\<close>): none of them is inherited from a prototype, so the access finds an own
  property or \<^verbatim>\<open>undefined\<close>, and throws on \<^verbatim>\<open>null\<close> and \<^verbatim>\<open>undefined\<close>.
\<close>

fun get_prop :: "jsval \<Rightarrow> string \<Rightarrow> exn + jsval" where
  "get_prop JUndefined k = Inl TypeError"
| "get_prop JNull k = Inl TypeError"
| "get_prop (JObj fs) k = Inr (case map_of fs k of None \<Rightarrow> JUndefined | Some v \<Rightarrow> v)"
| "get_prop v k = Inr JUndefined"

text \<open>The truth value of \<^verbatim>\<open>v\<close> in \<^verbatim>\<open>v || d\<close>.\<close>

fun truthy :: "jsval \<Rightarrow> bool" where
  "truthy JUndefined = False"
| "truthy JNull = False"
| "truthy (JBool b) = b"
| "truthy (JNum n) = (n \<noteq> ''0'' \<and> n \<noteq> ''NaN'')"
| "truthy (JStr s) = (s \<noteq> [])"
| "truthy (JArr xs) = True"
| "truthy (JObj fs) = True"

definition or_default :: "jsval \<Rightarrow> jsval \<Rightarrow> jsval" where
  "or_default v d = (if truthy v then v else d)"

text \<open>
  The conversion a template literal \<^verbatim>\<open>`${v}`\<close> applies. An array is its elements
  joined by commas, \<^verbatim>\<open>null\<close> and \<^verbatim>\<open>undefined\<close> elements giving the empty string. A
  parsed object gives \<^verbatim>\<open>[object Object]\<close> unless it has an own property \<^verbatim>\<open>toString\<close>,
  which JSON cannot make callable, so that the conversion throws.
\<close>

fun to_string :: "jsval \<Rightarrow> exn + string"
  and join_elems :: "jsval list \<Rightarrow> exn + string" where
  "to_string JUndefined = Inr ''undefined''"
| "to_string JNull = Inr ''null''"
| "to_string (JBool b) = Inr (if b then ''true'' else ''false'')"
| "to_string (JNum n) = Inr n"
| "to_string (JStr s) = Inr s"
| "to_string (JArr xs) = join_elems xs"
| "to_string (JObj fs) =
     (if map_of fs ''toString'' \<noteq> None then Inl TypeError else Inr ''[object Object]'')"
| "join_elems [] = Inr []"
| "join_elems (x # xs) =
     (case (if x = JNull \<or> x = JUndefined then Inr [] else to_string x) of
        Inl e \<Rightarrow> Inl e
      | Inr a \<Rightarrow>
          (if xs = [] then Inr a
           else (case join_elems xs of Inl e \<Rightarrow> Inl e | Inr b \<Rightarrow> Inr (a @ '','' @ b))))"

subsection \<open>The server's state\<close>

datatype ready_state = CONNECTING | OPEN | CLOSING | CLOSED

text \<open>
  A connection object \<^verbatim>\<open>ws\<close>: its state, the buffer \<^verbatim>\<open>ws.landmarkSequences\<close> and the
  text frames written to it so far.
\<close>

record websocket =
  readyState :: ready_state
  landmarkSequences :: "jsval list"
  sent :: "string list"

text \<open>A message of the bus: its body and the two properties the server reads or sets.\<close>

record amqp_msg =
  content :: string
  correlationId :: "string option"
  replyTo :: "string option"

record publication =
  exchange :: string
  routingKey :: string
  message :: amqp_msg

type_synonym ws_id = nat

text \<open>
  \<open>sockets\<close> is the heap of connection objects, which \<open>waitingClients\<close> refers to by
  identity. \<open>redis\<close> holds the hashes of the shared store and \<open>redis_ttl\<close> the expiry set
  on a key, in seconds. \<open>redis_ok\<close> is false when the promise of a store command
  rejects. \<open>published\<close> and \<open>acked\<close> record the calls of \<^verbatim>\<open>amqpChannel.publish\<close> and
  \<^verbatim>\<open>amqpChannel.ack\<close> in order.
\<close>

record server =
  waitingClients :: "string \<rightharpoonup> ws_id"
  sockets :: "ws_id \<Rightarrow> websocket"
  redis_ok :: bool
  redis :: "string \<rightharpoonup> (string \<rightharpoonup> string)"
  redis_ttl :: "string \<rightharpoonup> nat"
  published :: "publication list"
  acked :: "amqp_msg list"

definition JOBS_EXCHANGE :: string where
  "JOBS_EXCHANGE = ''aurasign_pipeline''"

definition RESULTS_QUEUE :: string where
  "RESULTS_QUEUE = ''aurasign_results_to_nodejs''"

subsection \<open>The commands of the shared store\<close>

definition hash_at :: "(string \<rightharpoonup> (string \<rightharpoonup> string)) \<Rightarrow> string \<Rightarrow> (string \<rightharpoonup> string)" where
  "hash_at r k = (case r k of None \<Rightarrow> Map.empty | Some h \<Rightarrow> h)"

definition hGetAll :: "server \<Rightarrow> string \<Rightarrow> exn + (string \<rightharpoonup> string)" where
  "hGetAll s k = (if redis_ok s then Inr (hash_at (redis s) k) else Inl RedisError)"

text \<open>
  The client library takes a string or a number as the value of a field, the number as
  its text, and throws for every other type of argument.
\<close>

fun redis_arg :: "jsval \<Rightarrow> string option" where
  "redis_arg (JStr t) = Some t"
| "redis_arg (JNum n) = Some n"
| "redis_arg v = None"

definition hSet :: "server \<Rightarrow> string \<Rightarrow> string \<Rightarrow> jsval \<Rightarrow> exn + server" where
  "hSet s k f v =
     (case redis_arg v of
        None \<Rightarrow> Inl TypeError
      | Some t \<Rightarrow>
          (if redis_ok s
           then Inr (s\<lparr>redis := (redis s)(k \<mapsto> (hash_at (redis s) k)(f \<mapsto> t))\<rparr>)
           else Inl RedisError))"

definition expire :: "server \<Rightarrow> string \<Rightarrow> nat \<Rightarrow> exn + server" where
  "expire s k n =
     (if redis_ok s
      then Inr (if redis s k = None then s else s\<lparr>redis_ttl := (redis_ttl s)(k \<mapsto> n)\<rparr>)
      else Inl RedisError)"

definition del :: "server \<Rightarrow> string \<Rightarrow> exn + server" where
  "del s k =
     (if redis_ok s
      then Inr (s\<lparr>redis := (redis s)(k := None), redis_ttl := (redis_ttl s)(k := None)\<rparr>)
      else Inl RedisError)"

text \<open>
  A worker of the pipeline is another client of the same store: it writes one field of
  the job's hash.
\<close>

definition worker_hSet :: "string \<Rightarrow> string \<Rightarrow> string \<Rightarrow> server \<Rightarrow> server" where
  "worker_hSet k f t s = s\<lparr>redis := (redis s)(k \<mapsto> (hash_at (redis s) k)(f \<mapsto> t))\<rparr>"

subsection \<open>The channel and the connections\<close>

definition ack :: "server \<Rightarrow> amqp_msg \<Rightarrow> server" where
  "ack s m = s\<lparr>acked := acked s @ [m]\<rparr>"

definition publish :: "server \<Rightarrow> string \<Rightarrow> string \<Rightarrow> string \<Rightarrow> string option \<Rightarrow> string option \<Rightarrow> server" where
  "publish s ex rk body cid rt =
     s\<lparr>published := published s @
         [\<lparr>exchange = ex, routingKey = rk,
           message = \<lparr>content = body, correlationId = cid, replyTo = rt\<rparr>\<rparr>]\<rparr>"

text \<open>
  \<^verbatim>\<open>ws.send\<close> transmits on an open connection and drops the frame on a closing or
  closed one (a connection of the server is never \<^verbatim>\<open>CONNECTING\<close>).
\<close>

definition ws_send :: "server \<Rightarrow> ws_id \<Rightarrow> string \<Rightarrow> server" where
  "ws_send s w txt =
     (if readyState (sockets s w) = OPEN
      then s\<lparr>sockets := (sockets s)(w := (sockets s w)\<lparr>sent := sent (sockets s w) @ [txt]\<rparr>)\<rparr>
      else s)"

subsection \<open>The consumers of the bus\<close>

text \<open>
  The argument of a consumer is \<^verbatim>\<open>null\<close> (here \<open>None\<close>) when the broker cancels it.
  \<^verbatim>\<open>waitingClients.get\<close> with a correlation identity that is \<^verbatim>\<open>undefined\<close> finds nothing,
  as the map is only written under the identities \<^verbatim>\<open>uuidv4\<close> returns.
\<close>

definition lookup_client :: "server \<Rightarrow> string option \<Rightarrow> (string \<times> ws_id) option" where
  "lookup_client s cid =
     (case cid of
        None \<Rightarrow> None
      | Some c \<Rightarrow> (case waitingClients s c of None \<Rightarrow> None | Some w \<Rightarrow> Some (c, w)))"

definition handleResultMessage :: "server \<Rightarrow> amqp_msg option \<Rightarrow> server" where
  "handleResultMessage s msg =
     (case msg of
        None \<Rightarrow> s
      | Some m \<Rightarrow>
          (let s1 = ack s m in
           case lookup_client s1 (correlationId m) of
             None \<Rightarrow> s1
           | Some (c, w) \<Rightarrow>
               if readyState (sockets s1 w) = OPEN
               then (let s2 = ws_send s1 w (content m)
                     in s2\<lparr>waitingClients := (waitingClients s2)(c := None)\<rparr>)
               else s1))"

text \<open>
  The dead-letter consumer parses the body and reads \<^verbatim>\<open>failedJob.sentence\<close> outside any
  \<^verbatim>\<open>try\<close>: a body that is not JSON, or is \<^verbatim>\<open>null\<close>, leaves the handler by an exception
  (\<open>Inl\<close>). \<open>parse\<close> is \<^verbatim>\<open>JSON.parse\<close> (\<open>None\<close> when it throws) and \<open>stringify\<close> is
  \<^verbatim>\<open>JSON.stringify\<close>.
\<close>

definition fallback_frame :: "string \<Rightarrow> jsval" where
  "fallback_frame sentence =
     JObj [(''fallbackText'', JStr (''Audio unavailable. Translation: \"'' @ sentence @ ''\"'')),
           (''conversationTone'', JStr ''Error'')]"

definition handleDeadLetterMessage ::
  "(string \<Rightarrow> jsval option) \<Rightarrow> (jsval \<Rightarrow> string) \<Rightarrow> server \<Rightarrow> amqp_msg option \<Rightarrow> exn + server" where
  "handleDeadLetterMessage parse stringify s msg =
     (case msg of
        None \<Rightarrow> Inr s
      | Some m \<Rightarrow>
          (let s1 = ack s m in
           case lookup_client s1 (correlationId m) of
             None \<Rightarrow> Inr s1
           | Some (c, w) \<Rightarrow>
               if readyState (sockets s1 w) = OPEN
               then (case parse (content m) of
                       None \<Rightarrow> Inl SyntaxError
                     | Some failedJob \<Rightarrow>
                         (case get_prop failedJob ''sentence'' of
                            Inl e \<Rightarrow> Inl e
                          | Inr v \<Rightarrow>
                              (case to_string v of
                                 Inl e \<Rightarrow> Inl e
                               | Inr sentence \<Rightarrow>
                                   (let s2 = ws_send s1 w (stringify (fallback_frame sentence))
                                    in Inr (s2\<lparr>waitingClients := (waitingClients s2)(c := None)\<rparr>)))))
               else Inr s1))"

text \<open>The key \<^verbatim>\<open>`job:${correlationId}`\<close>.\<close>

definition redisKey :: "string option \<Rightarrow> string" where
  "redisKey cid = ''job:'' @ (case cid of None \<Rightarrow> ''undefined'' | Some c \<Rightarrow> c)"

definition next_job_payload :: "string \<Rightarrow> string \<Rightarrow> (string \<rightharpoonup> string) \<Rightarrow> jsval" where
  "next_job_payload rawGloss dominantEmotion jobParts =
     JObj [(''raw_gloss'', JStr rawGloss),
           (''dominant_emotion'', JStr dominantEmotion),
           (''user_tone'',
              (case jobParts ''user_tone'' of
                 None \<Rightarrow> JStr ''Casual''
               | Some t \<Rightarrow> or_default (JStr t) (JStr ''Casual'')))]"

text \<open>
  The aggregation barrier, as one run of its handler with no other handler of the
  process running between its two \<^verbatim>\<open>await\<close>s. An error of a store command is caught and
  logged; the message is acknowledged on every path.
\<close>

definition handleAggregationNotification ::
  "(jsval \<Rightarrow> string) \<Rightarrow> server \<Rightarrow> amqp_msg option \<Rightarrow> server" where
  "handleAggregationNotification stringify s msg =
     (case msg of
        None \<Rightarrow> s
      | Some m \<Rightarrow>
          (let k = redisKey (correlationId m);
               s' = (case hGetAll s k of
                       Inl e \<Rightarrow> s
                     | Inr jobParts \<Rightarrow>
                         (case (jobParts ''raw_gloss'', jobParts ''dominant_emotion'') of
                            (Some rawGloss, Some dominantEmotion) \<Rightarrow>
                              (let s1 = publish s JOBS_EXCHANGE ''gemini_task''
                                          (stringify (next_job_payload rawGloss dominantEmotion jobParts))
                                          (correlationId m) (replyTo m)
                               in case del s1 k of Inl e \<Rightarrow> s1 | Inr s2 \<Rightarrow> s2)
                          | _ \<Rightarrow> s))
           in ack s' m))"

text \<open>
  The same handler in the pieces that run without suspension. \<open>notification_read\<close> is
  the command \<^verbatim>\<open>hGetAll\<close> sent when the handler starts; \<open>notification_forward\<close> runs when
  its reply is there, on the state of that later moment, up to the command \<^verbatim>\<open>del\<close>; the
  acknowledgement follows the reply of \<^verbatim>\<open>del\<close>. The client sends its commands over one
  connection, so a command takes effect in the order of the calls.
\<close>

definition notification_read :: "server \<Rightarrow> amqp_msg \<Rightarrow> exn + (string \<rightharpoonup> string)" where
  "notification_read s m = hGetAll s (redisKey (correlationId m))"

definition notification_forward ::
  "(jsval \<Rightarrow> string) \<Rightarrow> server \<Rightarrow> amqp_msg \<Rightarrow> exn + (string \<rightharpoonup> string) \<Rightarrow> server" where
  "notification_forward stringify s m reply =
     (case reply of
        Inl e \<Rightarrow> s
      | Inr jobParts \<Rightarrow>
          (case (jobParts ''raw_gloss'', jobParts ''dominant_emotion'') of
             (Some rawGloss, Some dominantEmotion) \<Rightarrow>
               (let s1 = publish s JOBS_EXCHANGE ''gemini_task''
                           (stringify (next_job_payload rawGloss dominantEmotion jobParts))
                           (correlationId m) (replyTo m)
                in case del s1 (redisKey (correlationId m)) of Inl e \<Rightarrow> s1 | Inr s2 \<Rightarrow> s2)
           | _ \<Rightarrow> s))"

text \<open>
  Two notifications delivered back to back: the second handler starts, and sends its
  \<^verbatim>\<open>hGetAll\<close>, before the reply to the first one's \<^verbatim>\<open>hGetAll\<close> has come. Nothing in the
  source makes the second wait.
\<close>

definition overlapped_notifications ::
  "(jsval \<Rightarrow> string) \<Rightarrow> server \<Rightarrow> amqp_msg \<Rightarrow> amqp_msg \<Rightarrow> server" where
  "overlapped_notifications stringify s m1 m2 =
     (let r1 = notification_read s m1;
          r2 = notification_read s m2;
          s1 = notification_forward stringify s m1 r1;
          s2 = notification_forward stringify s1 m2 r2
      in ack (ack s2 m1) m2)"

subsection \<open>The connection gateway\<close>

text \<open>
  A new connection \<open>w\<close>: the handler gives the object its empty buffer. \<open>w\<close> names an
  object that did not exist before.
\<close>

definition on_connection :: "server \<Rightarrow> ws_id \<Rightarrow> server" where
  "on_connection s w =
     s\<lparr>sockets := (sockets s)(w := \<lparr>readyState = OPEN, landmarkSequences = [], sent = []\<rparr>)\<rparr>"

definition set_landmarkSequences :: "server \<Rightarrow> ws_id \<Rightarrow> jsval list \<Rightarrow> server" where
  "set_landmarkSequences s w xs =
     s\<lparr>sockets := (sockets s)(w := (sockets s w)\<lparr>landmarkSequences := xs\<rparr>)\<rparr>"

definition jobPayload :: "jsval list \<Rightarrow> jsval \<Rightarrow> jsval" where
  "jobPayload seqs tone =
     JObj [(''landmark_data'', JArr seqs), (''user_tone'', or_default tone (JStr ''Casual''))]"

text \<open>
  The body of the \<^verbatim>\<open>try\<close> block of the message handler, \<open>Inl\<close> carrying the state at the
  throw. \<open>uuid\<close> is what \<^verbatim>\<open>uuidv4()\<close> returns if it is called.
\<close>

definition message_body ::
  "(string \<Rightarrow> jsval option) \<Rightarrow> (jsval \<Rightarrow> string) \<Rightarrow> string \<Rightarrow> server \<Rightarrow> ws_id \<Rightarrow> string
     \<Rightarrow> server + server" where
  "message_body parse stringify uuid s w raw =
     (case parse raw of
        None \<Rightarrow> Inl s
      | Some data \<Rightarrow>
          (case get_prop data ''type'' of
             Inl e \<Rightarrow> Inl s
           | Inr ty \<Rightarrow>
               if ty = JStr ''signing_data''
               then (case get_prop data ''sequence'' of
                       Inl e \<Rightarrow> Inl s
                     | Inr batch \<Rightarrow>
                         Inr (set_landmarkSequences s w (landmarkSequences (sockets s w) @ [batch])))
               else if ty = JStr ''end_of_sentence''
               then (if length (landmarkSequences (sockets s w)) > 0
                     then (case get_prop data ''tone'' of
                             Inl e \<Rightarrow> Inl s
                           | Inr tone \<Rightarrow>
                               (let payload = jobPayload (landmarkSequences (sockets s w)) tone;
                                    s1 = s\<lparr>waitingClients := (waitingClients s)(uuid \<mapsto> w)\<rparr>
                                in case hSet s1 (redisKey (Some uuid)) ''user_tone''
                                          (or_default tone (JStr ''Casual'')) of
                                     Inl e \<Rightarrow> Inl s1
                                   | Inr s2 \<Rightarrow>
                                       (case expire s2 (redisKey (Some uuid)) 300 of
                                          Inl e \<Rightarrow> Inl s2
                                        | Inr s3 \<Rightarrow>
                                            Inr (set_landmarkSequences
                                                   (publish s3 JOBS_EXCHANGE ''recognition_task''
                                                      (stringify payload) (Some uuid) (Some RESULTS_QUEUE))
                                                   w []))))
                     else Inr (set_landmarkSequences s w []))
               else Inr s))"

definition error_frame :: jsval where
  "error_frame = JObj [(''error'', JStr ''An internal error occurred.'')]"

definition on_message ::
  "(string \<Rightarrow> jsval option) \<Rightarrow> (jsval \<Rightarrow> string) \<Rightarrow> string \<Rightarrow> server \<Rightarrow> ws_id \<Rightarrow> string \<Rightarrow> server" where
  "on_message parse stringify uuid s w raw =
     (case message_body parse stringify uuid s w raw of
        Inl s' \<Rightarrow> ws_send s' w (stringify error_frame)
      | Inr s' \<Rightarrow> s')"

text \<open>
  The frames of one connection, each handled to its end before the next is taken, in
  their order of arrival. A frame comes with the value \<^verbatim>\<open>uuidv4()\<close> returns if its
  handler calls it.
\<close>

fun on_messages ::
  "(string \<Rightarrow> jsval option) \<Rightarrow> (jsval \<Rightarrow> string) \<Rightarrow> server \<Rightarrow> ws_id \<Rightarrow> (string \<times> string) list \<Rightarrow> server" where
  "on_messages parse stringify s w [] = s"
| "on_messages parse stringify s w ((raw, uuid) # frames) =
     on_messages parse stringify (on_message parse stringify uuid s w raw) w frames"

text \<open>
  The \<^verbatim>\<open>close\<close> handler only logs. By then the library has set the connection's state.
\<close>

definition on_close :: "server \<Rightarrow> ws_id \<Rightarrow> server" where
  "on_close s w = s\<lparr>sockets := (sockets s)(w := (sockets s w)\<lparr>readyState := CLOSED\<rparr>)\<rparr>"

subsection \<open>Frames and jobs\<close>

text \<open>
  An append frame is a text that parses to a value whose \<^verbatim>\<open>type\<close> is \<^verbatim>\<open>signing_data\<close>;
  its batch is the value of \<^verbatim>\<open>sequence\<close>. An end-of-turn frame is one whose \<^verbatim>\<open>type\<close> is
  \<^verbatim>\<open>end_of_sentence\<close>; its tone is the value of \<^verbatim>\<open>tone\<close>, \<^verbatim>\<open>undefined\<close> when the frame
  has none.
\<close>

definition append_frame :: "(string \<Rightarrow> jsval option) \<Rightarrow> string \<Rightarrow> jsval \<Rightarrow> bool" where
  "append_frame parse raw batch =
     (case parse raw of
        None \<Rightarrow> False
      | Some data \<Rightarrow>
          get_prop data ''type'' = Inr (JStr ''signing_data'') \<and>
          get_prop data ''sequence'' = Inr batch)"

definition end_of_turn_frame :: "(string \<Rightarrow> jsval option) \<Rightarrow> string \<Rightarrow> jsval \<Rightarrow> bool" where
  "end_of_turn_frame parse raw tone =
     (case parse raw of
        None \<Rightarrow> False
      | Some data \<Rightarrow>
          get_prop data ''type'' = Inr (JStr ''end_of_sentence'') \<and>
          get_prop data ''tone'' = Inr tone)"

text \<open>The publication that hands a job with buffer \<open>buf\<close> and tone \<open>tone\<close> to the first stage.\<close>

definition first_stage_job :: "(jsval \<Rightarrow> string) \<Rightarrow> string \<Rightarrow> jsval list \<Rightarrow> jsval \<Rightarrow> publication" where
  "first_stage_job stringify uuid buf tone =
     \<lparr>exchange = JOBS_EXCHANGE, routingKey = ''recognition_task'',
      message = \<lparr>content = stringify (JObj [(''landmark_data'', JArr buf), (''user_tone'', tone)]),
                 correlationId = Some uuid, replyTo = Some RESULTS_QUEUE\<rparr>\<rparr>"

subsection \<open>Example inputs\<close>

text \<open>The two batches \<^verbatim>\<open>[[0.1,0.2,0.0,1.0]]\<close> and \<^verbatim>\<open>[[0.3,0.4,0.0,1.0]]\<close>.\<close>

definition scenario_batch1 :: jsval where
  "scenario_batch1 = JArr [JArr [JNum ''0.1'', JNum ''0.2'', JNum ''0'', JNum ''1'']]"

definition scenario_batch2 :: jsval where
  "scenario_batch2 = JArr [JArr [JNum ''0.3'', JNum ''0.4'', JNum ''0'', JNum ''1'']]"

definition frame_a1 :: string where
  "frame_a1 = ''{\"type\":\"signing_data\",\"sequence\":[[0.1,0.2,0.0,1.0]]}''"

definition frame_a2 :: string where
  "frame_a2 = ''{\"type\":\"signing_data\",\"sequence\":[[0.3,0.4,0.0,1.0]]}''"

definition frame_formal :: string where
  "frame_formal = ''{\"type\":\"end_of_sentence\",\"tone\":\"Formal\"}''"

definition frame_no_tone :: string where
  "frame_no_tone = ''{\"type\":\"end_of_sentence\"}''"

definition body_hello :: string where
  "body_hello = ''{\"sentence\":\"hello\"}''"

definition frame_tone_true :: string where
  "frame_tone_true = ''{\"type\":\"end_of_sentence\",\"tone\":true}''"

text \<open>What \<^verbatim>\<open>JSON.parse\<close> returns on the six texts above; every other text is rejected.\<close>

definition example_parse :: "string \<Rightarrow> jsval option" where
  "example_parse raw =
     (if raw = frame_a1
      then Some (JObj [(''type'', JStr ''signing_data''), (''sequence'', scenario_batch1)])
      else if raw = frame_a2
      then Some (JObj [(''type'', JStr ''signing_data''), (''sequence'', scenario_batch2)])
      else if raw = frame_formal
      then Some (JObj [(''type'', JStr ''end_of_sentence''), (''tone'', JStr ''Formal'')])
      else if raw = frame_no_tone
      then Some (JObj [(''type'', JStr ''end_of_sentence'')])
      else if raw = body_hello
      then Some (JObj [(''sentence'', JStr ''hello'')])
      else if raw = frame_tone_true
      then Some (JObj [(''type'', JStr ''end_of_sentence''), (''tone'', JBool True)])
      else None)"

text \<open>A stand-in for \<^verbatim>\<open>JSON.stringify\<close> in the examples: the keys of an object, in order.\<close>

definition example_stringify :: "jsval \<Rightarrow> string" where
  "example_stringify v = (case v of JObj fs \<Rightarrow> concat (map fst fs) | _ \<Rightarrow> [])"

text \<open>A server with no connection, no job and an empty store.\<close>

definition idle_server :: server where
  "idle_server =
     \<lparr>waitingClients = Map.empty,
      sockets = (\<lambda>w. \<lparr>readyState = CLOSED, landmarkSequences = [], sent = []\<rparr>),
      redis_ok = True, redis = Map.empty, redis_ttl = Map.empty,
      published = [], acked = []\<rparr>"

text \<open>
  Connection \<open>0\<close> has sent one batch and ended its turn; the job \<^verbatim>\<open>job-1\<close> is in the
  pipeline. In \<open>closed_server\<close> the client has left before the result came back.
\<close>

definition waiting_server :: server where
  "waiting_server =
     on_messages example_parse example_stringify
       (on_connection idle_server 0) 0 [(frame_a1, ''job-0''), (frame_formal, ''job-1'')]"

definition closed_server :: server where
  "closed_server = on_close waiting_server 0"

definition result_job1 :: amqp_msg where
  "result_job1 =
     \<lparr>content = ''{\"audioData\":\"UklGRg==\",\"sentence\":\"hello\"}'',
      correlationId = Some ''job-1'', replyTo = None\<rparr>"

definition dead_letter_job1 :: amqp_msg where
  "dead_letter_job1 = \<lparr>content = body_hello, correlationId = Some ''job-1'', replyTo = None\<rparr>"

definition notification_job1 :: amqp_msg where
  "notification_job1 =
     \<lparr>content = [], correlationId = Some ''job-1'', replyTo = Some RESULTS_QUEUE\<rparr>"

text \<open>Both workers have written their field of \<^verbatim>\<open>job-1\<close>.\<close>

definition complete_server :: server where
  "complete_server =
     worker_hSet ''job:job-1'' ''dominant_emotion'' ''happy''
       (worker_hSet ''job:job-1'' ''raw_gloss'' ''HELLO'' waiting_server)"

text \<open>Connection \<open>0\<close> has sent one batch and not yet ended its turn.\<close>

definition buffering_server :: server where
  "buffering_server =
     on_message example_parse example_stringify ''job-1'' (on_connection idle_server 0) 0 frame_a1"

text \<open>
  The record of \<^verbatim>\<open>job-2\<close> was never seeded (or has expired and been written anew): it
  holds the two fields of the workers and no tone.
\<close>

definition unseeded_server :: server where
  "unseeded_server =
     worker_hSet ''job:job-2'' ''dominant_emotion'' ''happy''
       (worker_hSet ''job:job-2'' ''raw_gloss'' ''HELLO'' idle_server)"

definition notification_job2 :: amqp_msg where
  "notification_job2 =
     \<lparr>content = [], correlationId = Some ''job-2'', replyTo = Some RESULTS_QUEUE\<rparr>"

text \<open>Connection \<open>0\<close> is open and every command of the store is rejected.\<close>

definition store_down_server :: server where
  "store_down_server = (on_connection idle_server 0)\<lparr>redis_ok := False\<rparr>"

section \<open>Properties\<close>

subsection \<open>The session buffer\<close>

lemma set_landmarkSequences_twice:
  "set_landmarkSequences (set_landmarkSequences s w xs) w ys = set_landmarkSequences s w ys"
  by (simp add: set_landmarkSequences_def)

lemma set_landmarkSequences_same:
  "landmarkSequences (sockets s w) = xs \<Longrightarrow> set_landmarkSequences s w xs = s"
  by (auto simp add: set_landmarkSequences_def)

lemma landmarkSequences_set:
  "landmarkSequences (sockets (set_landmarkSequences s w xs) w) = xs"
  by (simp add: set_landmarkSequences_def)

lemma on_message_append:
  "append_frame parse raw b \<Longrightarrow>
   on_message parse stringify u s w raw =
     set_landmarkSequences s w (landmarkSequences (sockets s w) @ [b])"
  by (auto simp add: append_frame_def on_message_def message_body_def split: option.splits)

lemma on_messages_appends:
  "list_all2 (\<lambda>f b. append_frame parse (fst f) b) frames bs \<Longrightarrow>
   on_messages parse stringify s w frames =
     set_landmarkSequences s w (landmarkSequences (sockets s w) @ bs)"
proof (induction frames bs arbitrary: s rule: list_all2_induct)
  case Nil
  show ?case by (simp add: set_landmarkSequences_same)
next
  case (Cons f frames b bs)
  obtain raw u where f: "f = (raw, u)" by (cases f)
  from Cons.hyps(1) have a: "append_frame parse raw b" by (simp add: f)
  show ?case
    by (simp add: f Cons.IH on_message_append [OF a]
        set_landmarkSequences_twice landmarkSequences_set)
qed

lemma on_messages_snoc:
  "on_messages parse stringify s w (frames @ [(raw, u)]) =
   on_message parse stringify u (on_messages parse stringify s w frames) w raw"
  by (induction frames arbitrary: s) auto

lemma end_of_turn_with_buffer:
  assumes "redis_ok s"
    and "end_of_turn_frame parse raw tone"
    and "or_default tone (JStr ''Casual'') = JStr t"
    and "landmarkSequences (sockets s w) \<noteq> []"
  shows "on_message parse stringify u s w raw =
     s\<lparr>waitingClients := (waitingClients s)(u \<mapsto> w),
       redis := (redis s)(redisKey (Some u) \<mapsto>
                  (hash_at (redis s) (redisKey (Some u)))(''user_tone'' \<mapsto> t)),
       redis_ttl := (redis_ttl s)(redisKey (Some u) \<mapsto> 300),
       published := published s @
         [first_stage_job stringify u (landmarkSequences (sockets s w)) (JStr t)],
       sockets := (sockets s)(w := (sockets s w)\<lparr>landmarkSequences := []\<rparr>)\<rparr>"
  using assms
  by (auto simp add: end_of_turn_frame_def on_message_def message_body_def jobPayload_def
      hSet_def expire_def publish_def set_landmarkSequences_def first_stage_job_def Let_def
      split: option.splits)

lemma end_of_turn_without_buffer:
  assumes "end_of_turn_frame parse raw tone"
    and "landmarkSequences (sockets s w) = []"
  shows "on_message parse stringify u s w raw = s"
  using assms
  by (auto simp add: end_of_turn_frame_def on_message_def message_body_def
      set_landmarkSequences_same split: option.splits)

lemma end_of_turn_hSet_throws:
  assumes "end_of_turn_frame parse raw tone"
    and "landmarkSequences (sockets s w) \<noteq> []"
    and "\<not> redis_ok s \<or> redis_arg (or_default tone (JStr ''Casual'')) = None"
  shows "on_message parse stringify u s w raw =
     ws_send (s\<lparr>waitingClients := (waitingClients s)(u \<mapsto> w)\<rparr>) w (stringify error_frame)"
  using assms
  by (auto simp add: end_of_turn_frame_def on_message_def message_body_def hSet_def Let_def
      split: option.splits)

subsection \<open>The barrier, one notification at a time\<close>

lemma handleAggregationNotification_phases:
  "handleAggregationNotification stringify s (Some m) =
     ack (notification_forward stringify s m (notification_read s m)) m"
  by (simp add: handleAggregationNotification_def notification_forward_def notification_read_def
      Let_def)

lemma notification_without_record:
  "redis s (redisKey (correlationId m)) = None \<Longrightarrow>
   handleAggregationNotification stringify s (Some m) = s\<lparr>acked := acked s @ [m]\<rparr>"
  by (simp add: handleAggregationNotification_def hGetAll_def hash_at_def ack_def Let_def)

lemma notification_incomplete:
  "hash_at (redis s) (redisKey (correlationId m)) ''raw_gloss'' = None \<or>
   hash_at (redis s) (redisKey (correlationId m)) ''dominant_emotion'' = None \<Longrightarrow>
   handleAggregationNotification stringify s (Some m) = s\<lparr>acked := acked s @ [m]\<rparr>"
  by (auto simp add: handleAggregationNotification_def hGetAll_def ack_def Let_def
      split: option.splits)

lemma notification_complete:
  assumes "redis_ok s"
    and "hash_at (redis s) (redisKey (correlationId m)) ''raw_gloss'' = Some g"
    and "hash_at (redis s) (redisKey (correlationId m)) ''dominant_emotion'' = Some e"
  shows "handleAggregationNotification stringify s (Some m) =
     s\<lparr>published := published s @
          [\<lparr>exchange = JOBS_EXCHANGE, routingKey = ''gemini_task'',
            message = \<lparr>content = stringify (next_job_payload g e
                                               (hash_at (redis s) (redisKey (correlationId m)))),
                       correlationId = correlationId m, replyTo = replyTo m\<rparr>\<rparr>],
        redis := (redis s)(redisKey (correlationId m) := None),
        redis_ttl := (redis_ttl s)(redisKey (correlationId m) := None),
        acked := acked s @ [m]\<rparr>"
  using assms
  by (simp add: handleAggregationNotification_def hGetAll_def ack_def Let_def publish_def del_def)

lemma next_job_payload_parts:
  "next_job_payload g e (h(''raw_gloss'' \<mapsto> g', ''dominant_emotion'' \<mapsto> e')) =
   next_job_payload g e h"
  by (simp add: next_job_payload_def)

lemma worker_hSet_twist:
  "worker_hSet k ''dominant_emotion'' e (worker_hSet k ''raw_gloss'' g s) =
   worker_hSet k ''raw_gloss'' g (worker_hSet k ''dominant_emotion'' e s)"
  by (simp add: worker_hSet_def hash_at_def fun_upd_twist)

subsection \<open>The example states\<close>

lemma example_frames:
  "append_frame example_parse frame_a1 scenario_batch1"
  "append_frame example_parse frame_a2 scenario_batch2"
  "end_of_turn_frame example_parse frame_formal (JStr ''Formal'')"
  "end_of_turn_frame example_parse frame_no_tone JUndefined"
  by (simp_all add: append_frame_def end_of_turn_frame_def example_parse_def
      frame_a1_def frame_a2_def frame_formal_def frame_no_tone_def)

lemma tone_true_frame:
  "end_of_turn_frame example_parse frame_tone_true (JBool True)"
  by (simp add: end_of_turn_frame_def example_parse_def frame_a1_def frame_a2_def
      frame_formal_def frame_no_tone_def body_hello_def frame_tone_true_def)

lemma connected_server:
  "redis_ok (on_connection idle_server 0)"
  "landmarkSequences (sockets (on_connection idle_server 0) 0) = []"
  "redis (on_connection idle_server 0) = Map.empty"
  "published (on_connection idle_server 0) = []"
  "waitingClients (on_connection idle_server 0) = Map.empty"
  by (simp_all add: on_connection_def idle_server_def)

lemma waiting_server_eq:
  "waiting_server =
     (on_connection idle_server 0)
       \<lparr>waitingClients := [''job-1'' \<mapsto> 0],
        redis := [''job:job-1'' \<mapsto> [''user_tone'' \<mapsto> ''Formal'']],
        redis_ttl := [''job:job-1'' \<mapsto> 300],
        published := [first_stage_job example_stringify ''job-1'' [scenario_batch1] (JStr ''Formal'')]\<rparr>"
proof -
  let ?c = "on_connection idle_server 0"
  let ?a = "set_landmarkSequences ?c 0 [scenario_batch1]"
  have a: "on_message example_parse example_stringify ''job-0'' ?c 0 frame_a1 = ?a"
    by (simp add: on_message_append [OF example_frames(1)] connected_server)
  have ok: "redis_ok ?a" and ne: "landmarkSequences (sockets ?a 0) \<noteq> []"
    by (simp_all add: set_landmarkSequences_def connected_server)
  have tone: "or_default (JStr ''Formal'') (JStr ''Casual'') = JStr ''Formal''"
    by (simp add: or_default_def)
  show ?thesis
    unfolding waiting_server_def
    by (simp add: a end_of_turn_with_buffer [OF ok example_frames(3) tone ne])
      (simp add: set_landmarkSequences_def on_connection_def idle_server_def redisKey_def
        hash_at_def)
qed

lemma waiting_server_facts:
  "redis_ok waiting_server"
  "waitingClients waiting_server ''job-1'' = Some 0"
  "readyState (sockets waiting_server 0) = OPEN"
  "sent (sockets waiting_server 0) = []"
  "redis waiting_server ''job:job-1'' = Some [''user_tone'' \<mapsto> ''Formal'']"
  "published waiting_server =
     [first_stage_job example_stringify ''job-1'' [scenario_batch1] (JStr ''Formal'')]"
  by (simp_all add: waiting_server_eq on_connection_def idle_server_def)

lemma complete_server_facts:
  "redis_ok complete_server"
  "hash_at (redis complete_server) ''job:job-1'' ''raw_gloss'' = Some ''HELLO''"
  "hash_at (redis complete_server) ''job:job-1'' ''dominant_emotion'' = Some ''happy''"
  "hash_at (redis complete_server) ''job:job-1'' ''user_tone'' = Some ''Formal''"
  by (simp_all add: complete_server_def worker_hSet_def hash_at_def waiting_server_facts)

lemma buffering_server_facts:
  "redis_ok buffering_server"
  "landmarkSequences (sockets buffering_server 0) = [scenario_batch1]"
  "published buffering_server = []"
  by (simp_all add: buffering_server_def on_message_append [OF example_frames(1)]
      set_landmarkSequences_def connected_server)

lemma unseeded_server_facts:
  "redis_ok unseeded_server"
  "published unseeded_server = []"
  "hash_at (redis unseeded_server) (redisKey (correlationId notification_job2)) =
     [''raw_gloss'' \<mapsto> ''HELLO'', ''dominant_emotion'' \<mapsto> ''happy'']"
  by (simp_all add: unseeded_server_def worker_hSet_def hash_at_def idle_server_def redisKey_def
      notification_job2_def)

subsection \<open>Claims\<close>

text \<open>
  C1, as the code has it: on a session whose buffer is empty, a sequence of append
  frames followed by one end-of-turn frame whose tone is a string or is missing, each
  handled to its end while the store accepts its commands, leaves the buffer empty. If
  at least one append frame arrived, exactly one job is published, its buffer being the
  batches in their order of arrival; it is registered for the session and its tone is
  stored under \<^verbatim>\<open>job:\<close> and the identity. If none arrived, nothing is published,
  registered or stored.
\<close>

theorem end_of_turn_flushes_buffer:
  assumes "redis_ok s"
    and "landmarkSequences (sockets s w) = []"
    and "list_all2 (\<lambda>f b. append_frame parse (fst f) b) frames bs"
    and "end_of_turn_frame parse e tone"
    and "or_default tone (JStr ''Casual'') = JStr t"
    and "s' = on_messages parse stringify s w (frames @ [(e, u)])"
  shows "landmarkSequences (sockets s' w) = [] \<and>
         published s' =
           published s @
           (if bs = [] then []
            else [\<lparr>exchange = JOBS_EXCHANGE, routingKey = ''recognition_task'',
                   message = \<lparr>content = stringify (JObj [(''landmark_data'', JArr bs),
                                                         (''user_tone'', JStr t)]),
                              correlationId = Some u, replyTo = Some RESULTS_QUEUE\<rparr>\<rparr>]) \<and>
         waitingClients s' =
           (if bs = [] then waitingClients s else (waitingClients s)(u \<mapsto> w)) \<and>
         redis s' =
           (if bs = [] then redis s
            else (redis s)(''job:'' @ u \<mapsto>
                   (case redis s (''job:'' @ u) of None \<Rightarrow> Map.empty | Some h \<Rightarrow> h)
                     (''user_tone'' \<mapsto> t)))"
proof -
  let ?a = "set_landmarkSequences s w bs"
  have a: "on_messages parse stringify s w frames = ?a"
    using on_messages_appends [OF assms(3), of stringify s w] by (simp add: assms(2))
  have s': "s' = on_message parse stringify u ?a w e"
    unfolding assms(6) on_messages_snoc a by (rule refl)
  show ?thesis
  proof (cases "bs = []")
    case True
    have "s' = ?a"
      unfolding s'
      by (rule end_of_turn_without_buffer [OF assms(4)]) (simp add: landmarkSequences_set True)
    then show ?thesis
      by (simp add: True set_landmarkSequences_def)
  next
    case False
    have ok: "redis_ok ?a"
      by (simp add: set_landmarkSequences_def assms(1))
    have ne: "landmarkSequences (sockets ?a w) \<noteq> []"
      by (simp add: landmarkSequences_set False)
    show ?thesis
      unfolding s' end_of_turn_with_buffer [OF ok assms(4,5) ne]
      by (simp add: False set_landmarkSequences_def first_stage_job_def redisKey_def hash_at_def)
  qed
qed

theorem end_of_turn_flushes_buffer_witness:
  "redis_ok (on_connection idle_server 0) \<and>
   landmarkSequences (sockets (on_connection idle_server 0) 0) = [] \<and>
   append_frame example_parse frame_a1 scenario_batch1 \<and>
   append_frame example_parse frame_a2 scenario_batch2 \<and>
   end_of_turn_frame example_parse frame_formal (JStr ''Formal'') \<and>
   landmarkSequences (sockets
     (on_messages example_parse example_stringify (on_connection idle_server 0) 0
        [(frame_a1, ''job-a''), (frame_a2, ''job-b''), (frame_formal, ''job-1'')]) 0) = [] \<and>
   published
     (on_messages example_parse example_stringify (on_connection idle_server 0) 0
        [(frame_a1, ''job-a''), (frame_a2, ''job-b''), (frame_formal, ''job-1'')]) =
     [\<lparr>exchange = ''aurasign_pipeline'', routingKey = ''recognition_task'',
       message = \<lparr>content = example_stringify
                    (JObj [(''landmark_data'', JArr [scenario_batch1, scenario_batch2]),
                           (''user_tone'', JStr ''Formal'')]),
                  correlationId = Some ''job-1'',
                  replyTo = Some ''aurasign_results_to_nodejs''\<rparr>\<rparr>] \<and>
   waitingClients
     (on_messages example_parse example_stringify (on_connection idle_server 0) 0
        [(frame_a1, ''job-a''), (frame_a2, ''job-b''), (frame_formal, ''job-1'')]) ''job-1'' =
     Some 0 \<and>
   redis
     (on_messages example_parse example_stringify (on_connection idle_server 0) 0
        [(frame_a1, ''job-a''), (frame_a2, ''job-b''), (frame_formal, ''job-1'')]) ''job:job-1'' =
     Some [''user_tone'' \<mapsto> ''Formal'']"
proof -
  have h3: "list_all2 (\<lambda>f b. append_frame example_parse (fst f) b)
      [(frame_a1, ''job-a''), (frame_a2, ''job-b'')] [scenario_batch1, scenario_batch2]"
    by (simp add: example_frames)
  have h5: "or_default (JStr ''Formal'') (JStr ''Casual'') = JStr ''Formal''"
    by (simp add: or_default_def)
  show ?thesis
    using end_of_turn_flushes_buffer
      [OF connected_server(1) connected_server(2) h3 example_frames(3) h5 refl,
        of example_stringify "''job-1''"]
    by (simp add: connected_server example_frames JOBS_EXCHANGE_def RESULTS_QUEUE_def)
qed

text \<open>
  C1 as stated fails. With the store rejecting its commands, or with an end-of-turn
  frame whose tone is \<^verbatim>\<open>true\<close>, the command \<^verbatim>\<open>hSet\<close> throws: after one append frame and
  the end-of-turn frame no job is published and the buffer still holds the batch.
\<close>

theorem end_of_turn_keeps_buffer_on_error:
  "append_frame example_parse frame_a1 scenario_batch1 \<and>
   end_of_turn_frame example_parse frame_formal (JStr ''Formal'') \<and>
   end_of_turn_frame example_parse frame_tone_true (JBool True) \<and>
   landmarkSequences (sockets store_down_server 0) = [] \<and>
   landmarkSequences (sockets
     (on_messages example_parse example_stringify store_down_server 0
        [(frame_a1, ''job-0''), (frame_formal, ''job-1'')]) 0) = [scenario_batch1] \<and>
   published
     (on_messages example_parse example_stringify store_down_server 0
        [(frame_a1, ''job-0''), (frame_formal, ''job-1'')]) = [] \<and>
   landmarkSequences (sockets (on_connection idle_server 0) 0) = [] \<and>
   landmarkSequences (sockets
     (on_messages example_parse example_stringify (on_connection idle_server 0) 0
        [(frame_a1, ''job-0''), (frame_tone_true, ''job-1'')]) 0) = [scenario_batch1] \<and>
   published
     (on_messages example_parse example_stringify (on_connection idle_server 0) 0
        [(frame_a1, ''job-0''), (frame_tone_true, ''job-1'')]) = []"
proof -
  let ?d = "set_landmarkSequences store_down_server 0 [scenario_batch1]"
  let ?c = "set_landmarkSequences (on_connection idle_server 0) 0 [scenario_batch1]"
  have down: "landmarkSequences (sockets store_down_server 0) = []"
    by (simp add: store_down_server_def on_connection_def idle_server_def)
  have a1: "on_message example_parse example_stringify ''job-0'' store_down_server 0 frame_a1 = ?d"
    by (simp add: on_message_append [OF example_frames(1)] down)
  have a2: "on_message example_parse example_stringify ''job-0'' (on_connection idle_server 0) 0
      frame_a1 = ?c"
    by (simp add: on_message_append [OF example_frames(1)] connected_server)
  have ne1: "landmarkSequences (sockets ?d 0) \<noteq> []" and ne2: "landmarkSequences (sockets ?c 0) \<noteq> []"
    by (simp_all add: landmarkSequences_set)
  have f1: "\<not> redis_ok ?d \<or> redis_arg (or_default (JStr ''Formal'') (JStr ''Casual'')) = None"
    by (simp add: set_landmarkSequences_def store_down_server_def)
  have f2: "\<not> redis_ok ?c \<or> redis_arg (or_default (JBool True) (JStr ''Casual'')) = None"
    by (simp add: or_default_def)
  have e1: "landmarkSequences (sockets
     (on_messages example_parse example_stringify store_down_server 0
        [(frame_a1, ''job-0''), (frame_formal, ''job-1'')]) 0) = [scenario_batch1]"
    and e2: "published
     (on_messages example_parse example_stringify store_down_server 0
        [(frame_a1, ''job-0''), (frame_formal, ''job-1'')]) = []"
    by (simp_all add: a1 end_of_turn_hSet_throws [OF example_frames(3) ne1 f1])
      (simp_all add: ws_send_def set_landmarkSequences_def store_down_server_def
        on_connection_def idle_server_def)
  have e3: "landmarkSequences (sockets
     (on_messages example_parse example_stringify (on_connection idle_server 0) 0
        [(frame_a1, ''job-0''), (frame_tone_true, ''job-1'')]) 0) = [scenario_batch1]"
    and e4: "published
     (on_messages example_parse example_stringify (on_connection idle_server 0) 0
        [(frame_a1, ''job-0''), (frame_tone_true, ''job-1'')]) = []"
    by (simp_all add: a2 end_of_turn_hSet_throws [OF tone_true_frame ne2 f2])
      (simp_all add: ws_send_def set_landmarkSequences_def on_connection_def idle_server_def)
  from example_frames(1) example_frames(3) tone_true_frame down e1 e2 connected_server(2) e3 e4
  show ?thesis
    by (intro conjI)
qed

text \<open>
  C2: a job's record holds the seeded tone and no derived attribute. After a worker
  writes \<^verbatim>\<open>raw_gloss\<close>, a notification publishes nothing and the record stays. After a
  worker then writes \<^verbatim>\<open>dominant_emotion\<close>, a notification publishes exactly one message to
  the next stage, holding both fields and the seeded tone, with the notification's
  correlation identity and reply destination, and the record is gone.
\<close>

theorem barrier_waits_then_forwards_once:
  assumes "redis_ok s"
    and "correlationId m1 = cid" and "correlationId m2 = cid"
    and "redis s (redisKey cid) = Some h"
    and "h ''dominant_emotion'' = None"
    and "h ''user_tone'' = Some t" and "t \<noteq> []"
    and "s1 = handleAggregationNotification stringify
                (worker_hSet (redisKey cid) ''raw_gloss'' g s) (Some m1)"
    and "s2 = handleAggregationNotification stringify
                (worker_hSet (redisKey cid) ''dominant_emotion'' e s1) (Some m2)"
  shows "published s1 = published s \<and>
         redis s1 (redisKey cid) = Some (h(''raw_gloss'' \<mapsto> g)) \<and>
         published s2 = published s @
           [\<lparr>exchange = JOBS_EXCHANGE, routingKey = ''gemini_task'',
             message = \<lparr>content = stringify (JObj [(''raw_gloss'', JStr g),
                                                   (''dominant_emotion'', JStr e),
                                                   (''user_tone'', JStr t)]),
                        correlationId = cid, replyTo = replyTo m2\<rparr>\<rparr>] \<and>
         redis s2 (redisKey cid) = None"
proof -
  let ?k = "redisKey cid"
  let ?a = "worker_hSet ?k ''raw_gloss'' g s"
  have s1: "s1 = ?a\<lparr>acked := acked ?a @ [m1]\<rparr>"
    unfolding assms(8)
    by (rule notification_incomplete)
      (simp add: assms(2,4,5) worker_hSet_def hash_at_def)
  let ?b = "worker_hSet ?k ''dominant_emotion'' e s1"
  have ok: "redis_ok ?b"
    by (simp add: s1 worker_hSet_def assms(1))
  have parts: "hash_at (redis ?b) ?k = h(''raw_gloss'' \<mapsto> g, ''dominant_emotion'' \<mapsto> e)"
    by (simp add: s1 worker_hSet_def hash_at_def assms(4))
  have s2: "s2 = ?b\<lparr>published := published ?b @
          [\<lparr>exchange = JOBS_EXCHANGE, routingKey = ''gemini_task'',
            message = \<lparr>content = stringify (next_job_payload g e (hash_at (redis ?b) ?k)),
                       correlationId = cid, replyTo = replyTo m2\<rparr>\<rparr>],
        redis := (redis ?b)(?k := None),
        redis_ttl := (redis_ttl ?b)(?k := None),
        acked := acked ?b @ [m2]\<rparr>"
    unfolding assms(9)
    using notification_complete [of ?b m2 g e stringify] ok parts
    by (simp add: assms(3))
  have tone: "next_job_payload g e (hash_at (redis ?b) ?k) =
      JObj [(''raw_gloss'', JStr g), (''dominant_emotion'', JStr e), (''user_tone'', JStr t)]"
    by (simp add: parts next_job_payload_def assms(6,7) or_default_def)
  have "published s1 = published s" and "redis s1 ?k = Some (h(''raw_gloss'' \<mapsto> g))"
    by (simp_all add: s1 worker_hSet_def hash_at_def assms(4))
  moreover have "published ?b = published s"
    by (simp add: s1 worker_hSet_def)
  ultimately show ?thesis
    by (simp add: s2 tone)
qed

theorem barrier_waits_then_forwards_once_witness:
  "redis_ok waiting_server \<and>
   correlationId notification_job1 = Some ''job-1'' \<and>
   redis waiting_server (redisKey (Some ''job-1'')) = Some [''user_tone'' \<mapsto> ''Formal''] \<and>
   published (handleAggregationNotification example_stringify
      (worker_hSet (redisKey (Some ''job-1'')) ''raw_gloss'' ''HELLO'' waiting_server)
      (Some notification_job1)) = published waiting_server \<and>
   published (handleAggregationNotification example_stringify
      (worker_hSet (redisKey (Some ''job-1'')) ''dominant_emotion'' ''happy''
         (handleAggregationNotification example_stringify
            (worker_hSet (redisKey (Some ''job-1'')) ''raw_gloss'' ''HELLO'' waiting_server)
            (Some notification_job1)))
      (Some notification_job1)) =
     published waiting_server @
       [\<lparr>exchange = JOBS_EXCHANGE, routingKey = ''gemini_task'',
         message = \<lparr>content = example_stringify (JObj [(''raw_gloss'', JStr ''HELLO''),
                                                       (''dominant_emotion'', JStr ''happy''),
                                                       (''user_tone'', JStr ''Formal'')]),
                    correlationId = Some ''job-1'', replyTo = Some RESULTS_QUEUE\<rparr>\<rparr>]"
proof -
  have c: "correlationId notification_job1 = Some ''job-1''"
    and r: "replyTo notification_job1 = Some RESULTS_QUEUE"
    by (simp_all add: notification_job1_def)
  have h: "redis waiting_server (redisKey (Some ''job-1'')) = Some [''user_tone'' \<mapsto> ''Formal'']"
    by (simp add: redisKey_def waiting_server_facts)
  have d: "[''user_tone'' \<mapsto> ''Formal''] ''dominant_emotion'' = None"
    and t: "[''user_tone'' \<mapsto> ''Formal''] ''user_tone'' = Some ''Formal''"
    and n: "''Formal'' \<noteq> []"
    by simp_all
  show ?thesis
    using barrier_waits_then_forwards_once
      [OF waiting_server_facts(1) c c h d t n refl refl, of example_stringify "''HELLO''" "''happy''"]
    by (simp add: waiting_server_facts(1) c r h)
qed

text \<open>
  C3: once a notification has found the record complete, forwarded it and deleted it,
  the same notification delivered again publishes nothing and changes nothing: it is
  only acknowledged.
\<close>

theorem duplicate_notification_is_noop:
  assumes "redis_ok s"
    and "hash_at (redis s) (redisKey (correlationId m)) ''raw_gloss'' = Some g"
    and "hash_at (redis s) (redisKey (correlationId m)) ''dominant_emotion'' = Some e"
    and "s1 = handleAggregationNotification stringify s (Some m)"
  shows "length (published s1) = Suc (length (published s)) \<and>
         redis s1 (redisKey (correlationId m)) = None \<and>
         handleAggregationNotification stringify s1 (Some m) = s1\<lparr>acked := acked s1 @ [m]\<rparr>"
proof -
  have gone: "redis s1 (redisKey (correlationId m)) = None"
    and one: "length (published s1) = Suc (length (published s))"
    unfolding assms(4) notification_complete [OF assms(1-3)] by simp_all
  from gone have "handleAggregationNotification stringify s1 (Some m) = s1\<lparr>acked := acked s1 @ [m]\<rparr>"
    by (rule notification_without_record)
  with gone one show ?thesis by simp
qed

theorem duplicate_notification_is_noop_witness:
  "redis_ok complete_server \<and>
   hash_at (redis complete_server) (redisKey (correlationId notification_job1)) ''raw_gloss'' =
     Some ''HELLO'' \<and>
   hash_at (redis complete_server) (redisKey (correlationId notification_job1)) ''dominant_emotion'' =
     Some ''happy'' \<and>
   handleAggregationNotification example_stringify
     (handleAggregationNotification example_stringify complete_server (Some notification_job1))
     (Some notification_job1) =
   (handleAggregationNotification example_stringify complete_server (Some notification_job1))
     \<lparr>acked := acked (handleAggregationNotification example_stringify complete_server
                        (Some notification_job1)) @ [notification_job1]\<rparr>"
proof -
  have k: "redisKey (correlationId notification_job1) = ''job:job-1''"
    by (simp add: redisKey_def notification_job1_def)
  have g: "hash_at (redis complete_server) (redisKey (correlationId notification_job1)) ''raw_gloss'' =
      Some ''HELLO''"
    and e: "hash_at (redis complete_server) (redisKey (correlationId notification_job1))
      ''dominant_emotion'' = Some ''happy''"
    by (simp_all only: k complete_server_facts)
  from duplicate_notification_is_noop [OF complete_server_facts(1) g e refl, of example_stringify]
  have "handleAggregationNotification example_stringify
     (handleAggregationNotification example_stringify complete_server (Some notification_job1))
     (Some notification_job1) =
   (handleAggregationNotification example_stringify complete_server (Some notification_job1))
     \<lparr>acked := acked (handleAggregationNotification example_stringify complete_server
                        (Some notification_job1)) @ [notification_job1]\<rparr>"
    by (elim conjE)
  with complete_server_facts(1) g e show ?thesis
    by (intro conjI)
qed

text \<open>
  C4, as the code has it: for a job identity \<open>c\<close>, the two fields written under
  \<^verbatim>\<open>job:\<close>\<open>c\<close> in either order, followed by two notifications handled one after the
  other, the second handler starting when the first has finished: in both orders
  exactly one message is forwarded to the next stage, the same one, holding the two
  fields and the stored tone (\<^verbatim>\<open>Casual\<close> when none is stored), no record is left, and
  the two final states of the server are equal.
\<close>

theorem barrier_order_independent:
  assumes "redis_ok s"
    and "correlationId m1 = Some c" and "correlationId m2 = Some c"
    and "sAB = handleAggregationNotification stringify
                 (handleAggregationNotification stringify
                    (worker_hSet (''job:'' @ c) ''dominant_emotion'' e
                       (worker_hSet (''job:'' @ c) ''raw_gloss'' g s)) (Some m1)) (Some m2)"
    and "sBA = handleAggregationNotification stringify
                 (handleAggregationNotification stringify
                    (worker_hSet (''job:'' @ c) ''raw_gloss'' g
                       (worker_hSet (''job:'' @ c) ''dominant_emotion'' e s)) (Some m1)) (Some m2)"
    and "tone = (case redis s (''job:'' @ c) of
                   None \<Rightarrow> ''Casual''
                 | Some h \<Rightarrow>
                     (case h ''user_tone'' of
                        None \<Rightarrow> ''Casual''
                      | Some t \<Rightarrow> if t = [] then ''Casual'' else t))"
  shows "published sAB = published s @
           [\<lparr>exchange = JOBS_EXCHANGE, routingKey = ''gemini_task'',
             message = \<lparr>content = stringify (JObj [(''raw_gloss'', JStr g),
                                                   (''dominant_emotion'', JStr e),
                                                   (''user_tone'', JStr tone)]),
                        correlationId = Some c, replyTo = replyTo m1\<rparr>\<rparr>] \<and>
         published sBA = published sAB \<and>
         redis sAB (''job:'' @ c) = None \<and>
         redis sBA (''job:'' @ c) = None \<and>
         sAB = sBA"
proof -
  let ?k = "redisKey (Some c)"
  have k: "?k = ''job:'' @ c"
    by (simp add: redisKey_def)
  let ?w = "worker_hSet ?k ''dominant_emotion'' e (worker_hSet ?k ''raw_gloss'' g s)"
  let ?n = "handleAggregationNotification stringify ?w (Some m1)"
  have sAB: "sAB = handleAggregationNotification stringify ?n (Some m2)"
    unfolding assms(4) k by (rule refl)
  have same: "sAB = sBA"
    unfolding assms(4,5) by (simp add: worker_hSet_twist)
  have ok: "redis_ok ?w"
    by (simp add: worker_hSet_def assms(1))
  have parts: "hash_at (redis ?w) ?k =
      (hash_at (redis s) ?k)(''raw_gloss'' \<mapsto> g, ''dominant_emotion'' \<mapsto> e)"
    by (simp add: worker_hSet_def hash_at_def)
  have first: "?n = ?w\<lparr>published := published ?w @
          [\<lparr>exchange = JOBS_EXCHANGE, routingKey = ''gemini_task'',
            message = \<lparr>content = stringify (next_job_payload g e (hash_at (redis ?w) ?k)),
                       correlationId = Some c, replyTo = replyTo m1\<rparr>\<rparr>],
        redis := (redis ?w)(?k := None),
        redis_ttl := (redis_ttl ?w)(?k := None),
        acked := acked ?w @ [m1]\<rparr>"
    using notification_complete [of ?w m1 g e stringify] ok parts
    by (simp add: assms(2))
  have gone: "redis ?n (redisKey (correlationId m2)) = None"
    unfolding first by (simp add: assms(3))
  have second: "sAB = ?n\<lparr>acked := acked ?n @ [m2]\<rparr>"
    unfolding sAB using gone by (rule notification_without_record)
  have pub: "published ?w = published s"
    by (simp add: worker_hSet_def)
  have payload: "next_job_payload g e (hash_at (redis s) ?k) =
      JObj [(''raw_gloss'', JStr g), (''dominant_emotion'', JStr e), (''user_tone'', JStr tone)]"
    unfolding k assms(6)
    by (simp add: next_job_payload_def hash_at_def or_default_def split: option.splits)
  have "published sAB = published s @
           [\<lparr>exchange = JOBS_EXCHANGE, routingKey = ''gemini_task'',
             message = \<lparr>content = stringify (JObj [(''raw_gloss'', JStr g),
                                                   (''dominant_emotion'', JStr e),
                                                   (''user_tone'', JStr tone)]),
                        correlationId = Some c, replyTo = replyTo m1\<rparr>\<rparr>]"
    unfolding second first
    by (simp add: pub parts next_job_payload_parts payload)
  moreover have "redis sAB ?k = None"
    unfolding second first by simp
  ultimately show ?thesis
    using same unfolding k by simp
qed

theorem barrier_order_independent_witness:
  "redis_ok waiting_server \<and>
   correlationId notification_job1 = Some ''job-1'' \<and>
   published
     (handleAggregationNotification example_stringify
        (handleAggregationNotification example_stringify
           (worker_hSet ''job:job-1'' ''dominant_emotion'' ''happy''
              (worker_hSet ''job:job-1'' ''raw_gloss'' ''HELLO'' waiting_server))
           (Some notification_job1)) (Some notification_job1)) =
     published waiting_server @
     [\<lparr>exchange = ''aurasign_pipeline'', routingKey = ''gemini_task'',
       message = \<lparr>content = example_stringify
                    (JObj [(''raw_gloss'', JStr ''HELLO''), (''dominant_emotion'', JStr ''happy''),
                           (''user_tone'', JStr ''Formal'')]),
                  correlationId = Some ''job-1'',
                  replyTo = Some ''aurasign_results_to_nodejs''\<rparr>\<rparr>] \<and>
   published
     (handleAggregationNotification example_stringify
        (handleAggregationNotification example_stringify
           (worker_hSet ''job:job-1'' ''raw_gloss'' ''HELLO''
              (worker_hSet ''job:job-1'' ''dominant_emotion'' ''happy'' waiting_server))
           (Some notification_job1)) (Some notification_job1)) =
     published waiting_server @
     [\<lparr>exchange = ''aurasign_pipeline'', routingKey = ''gemini_task'',
       message = \<lparr>content = example_stringify
                    (JObj [(''raw_gloss'', JStr ''HELLO''), (''dominant_emotion'', JStr ''happy''),
                           (''user_tone'', JStr ''Formal'')]),
                  correlationId = Some ''job-1'',
                  replyTo = Some ''aurasign_results_to_nodejs''\<rparr>\<rparr>]"
proof -
  let ?AB = "handleAggregationNotification example_stringify
        (handleAggregationNotification example_stringify
           (worker_hSet ''job:job-1'' ''dominant_emotion'' ''happy''
              (worker_hSet ''job:job-1'' ''raw_gloss'' ''HELLO'' waiting_server))
           (Some notification_job1)) (Some notification_job1)"
  let ?BA = "handleAggregationNotification example_stringify
        (handleAggregationNotification example_stringify
           (worker_hSet ''job:job-1'' ''raw_gloss'' ''HELLO''
              (worker_hSet ''job:job-1'' ''dominant_emotion'' ''happy'' waiting_server))
           (Some notification_job1)) (Some notification_job1)"
  let ?fwd = "\<lparr>exchange = ''aurasign_pipeline'', routingKey = ''gemini_task'',
       message = \<lparr>content = example_stringify
                    (JObj [(''raw_gloss'', JStr ''HELLO''), (''dominant_emotion'', JStr ''happy''),
                           (''user_tone'', JStr ''Formal'')]),
                  correlationId = Some ''job-1'',
                  replyTo = Some ''aurasign_results_to_nodejs''\<rparr>\<rparr>"
  have c: "correlationId notification_job1 = Some ''job-1''"
    and r: "replyTo notification_job1 = Some ''aurasign_results_to_nodejs''"
    by (simp_all add: notification_job1_def RESULTS_QUEUE_def)
  have k: "''job:'' @ ''job-1'' = ''job:job-1''"
    by simp
  have tone: "(case redis waiting_server ''job:job-1'' of
                   None \<Rightarrow> ''Casual''
                 | Some h \<Rightarrow>
                     (case h ''user_tone'' of
                        None \<Rightarrow> ''Casual''
                      | Some t \<Rightarrow> if t = [] then ''Casual'' else t)) = ''Formal''"
    by (simp add: waiting_server_facts(5))
  note T = barrier_order_independent [OF waiting_server_facts(1) c c refl refl refl,
      of example_stringify "''happy''" "''HELLO''", unfolded k tone]
  from T have "published ?AB = published waiting_server @
      [\<lparr>exchange = JOBS_EXCHANGE, routingKey = ''gemini_task'',
        message = \<lparr>content = example_stringify
                     (JObj [(''raw_gloss'', JStr ''HELLO''), (''dominant_emotion'', JStr ''happy''),
                            (''user_tone'', JStr ''Formal'')]),
                   correlationId = Some ''job-1'', replyTo = replyTo notification_job1\<rparr>\<rparr>]"
    by (rule conjunct1)
  then have ab: "published ?AB = published waiting_server @ [?fwd]"
    by (simp add: r JOBS_EXCHANGE_def)
  from T have "published ?BA = published ?AB"
    by (rule conjunct1 [OF conjunct2])
  from this ab have ba: "published ?BA = published waiting_server @ [?fwd]"
    by (rule trans)
  from waiting_server_facts(1) c ab ba show ?thesis
    by (intro conjI)
qed

text \<open>
  C4 as stated fails. Both fields of \<^verbatim>\<open>job-1\<close> are written and the two notifications
  are delivered back to back: each handler reads the complete record before the other
  deletes it, and the merged payload is forwarded twice.
\<close>

theorem overlapping_notifications_forward_twice:
  "complete_server =
     worker_hSet ''job:job-1'' ''dominant_emotion'' ''happy''
       (worker_hSet ''job:job-1'' ''raw_gloss'' ''HELLO'' waiting_server) \<and>
   correlationId notification_job1 = Some ''job-1'' \<and>
   published
     (overlapped_notifications example_stringify complete_server
        notification_job1 notification_job1) =
     published complete_server @
     [\<lparr>exchange = ''aurasign_pipeline'', routingKey = ''gemini_task'',
       message = \<lparr>content = example_stringify
                    (JObj [(''raw_gloss'', JStr ''HELLO''), (''dominant_emotion'', JStr ''happy''),
                           (''user_tone'', JStr ''Formal'')]),
                  correlationId = Some ''job-1'',
                  replyTo = Some ''aurasign_results_to_nodejs''\<rparr>\<rparr>,
      \<lparr>exchange = ''aurasign_pipeline'', routingKey = ''gemini_task'',
       message = \<lparr>content = example_stringify
                    (JObj [(''raw_gloss'', JStr ''HELLO''), (''dominant_emotion'', JStr ''happy''),
                           (''user_tone'', JStr ''Formal'')]),
                  correlationId = Some ''job-1'',
                  replyTo = Some ''aurasign_results_to_nodejs''\<rparr>\<rparr>]"
proof -
  have c: "correlationId notification_job1 = Some ''job-1''"
    and r: "replyTo notification_job1 = Some ''aurasign_results_to_nodejs''"
    by (simp_all add: notification_job1_def RESULTS_QUEUE_def)
  have k: "redisKey (Some ''job-1'') = ''job:job-1''"
    by (simp add: redisKey_def)
  have h: "hash_at (redis complete_server) ''job:job-1'' =
      [''user_tone'' \<mapsto> ''Formal'', ''raw_gloss'' \<mapsto> ''HELLO'', ''dominant_emotion'' \<mapsto> ''happy'']"
    by (simp add: complete_server_def worker_hSet_def hash_at_def waiting_server_facts)
  have read: "notification_read complete_server notification_job1 =
      Inr [''user_tone'' \<mapsto> ''Formal'', ''raw_gloss'' \<mapsto> ''HELLO'', ''dominant_emotion'' \<mapsto> ''happy'']"
    by (simp add: notification_read_def hGetAll_def c k h complete_server_facts(1))
  have "published
     (overlapped_notifications example_stringify complete_server
        notification_job1 notification_job1) =
     published complete_server @
     [\<lparr>exchange = ''aurasign_pipeline'', routingKey = ''gemini_task'',
       message = \<lparr>content = example_stringify
                    (JObj [(''raw_gloss'', JStr ''HELLO''), (''dominant_emotion'', JStr ''happy''),
                           (''user_tone'', JStr ''Formal'')]),
                  correlationId = Some ''job-1'',
                  replyTo = Some ''aurasign_results_to_nodejs''\<rparr>\<rparr>,
      \<lparr>exchange = ''aurasign_pipeline'', routingKey = ''gemini_task'',
       message = \<lparr>content = example_stringify
                    (JObj [(''raw_gloss'', JStr ''HELLO''), (''dominant_emotion'', JStr ''happy''),
                           (''user_tone'', JStr ''Formal'')]),
                  correlationId = Some ''job-1'',
                  replyTo = Some ''aurasign_results_to_nodejs''\<rparr>\<rparr>]"
    by (simp add: overlapped_notifications_def read notification_forward_def publish_def del_def
        ack_def next_job_payload_def or_default_def c r k complete_server_facts(1)
        JOBS_EXCHANGE_def Let_def)
  with complete_server_def c show ?thesis
    by (intro conjI)
qed

text \<open>
  C5: a dead-letter message whose correlation identity \<open>X\<close> is registered to an open
  session and whose body carries the sentence \<open>S\<close> is acknowledged, writes exactly one
  frame to that session, the text of
  \<^verbatim>\<open>{fallbackText: "Audio unavailable. Translation: \"S\"", conversationTone: "Error"}\<close>,
  and removes \<open>X\<close> from the registry; nothing else changes.
\<close>

theorem dead_letter_sends_fallback:
  assumes "correlationId m = Some X"
    and "waitingClients s X = Some w"
    and "readyState (sockets s w) = OPEN"
    and "parse (content m) = Some (JObj fs)"
    and "map_of fs ''sentence'' = Some (JStr S)"
  shows "handleDeadLetterMessage parse stringify s (Some m) =
     Inr (s\<lparr>acked := acked s @ [m],
            sockets := (sockets s)(w := (sockets s w)\<lparr>sent := sent (sockets s w) @
              [stringify (JObj [(''fallbackText'',
                                   JStr (''Audio unavailable. Translation: \"'' @ S @ ''\"'')),
                                (''conversationTone'', JStr ''Error'')])]\<rparr>),
            waitingClients := (waitingClients s)(X := None)\<rparr>)"
  using assms
  by (simp add: handleDeadLetterMessage_def ack_def lookup_client_def ws_send_def Let_def
      fallback_frame_def)

theorem dead_letter_sends_fallback_witness:
  "correlationId dead_letter_job1 = Some ''job-1'' \<and>
   waitingClients waiting_server ''job-1'' = Some 0 \<and>
   readyState (sockets waiting_server 0) = OPEN \<and>
   example_parse (content dead_letter_job1) = Some (JObj [(''sentence'', JStr ''hello'')]) \<and>
   handleDeadLetterMessage example_parse example_stringify waiting_server (Some dead_letter_job1) =
     Inr (waiting_server\<lparr>acked := acked waiting_server @ [dead_letter_job1],
            sockets := (sockets waiting_server)(0 := (sockets waiting_server 0)
              \<lparr>sent := sent (sockets waiting_server 0) @
                 [example_stringify
                    (JObj [(''fallbackText'',
                              JStr (''Audio unavailable. Translation: \"'' @ ''hello'' @ ''\"'')),
                           (''conversationTone'', JStr ''Error'')])]\<rparr>),
            waitingClients := (waitingClients waiting_server)(''job-1'' := None)\<rparr>)"
proof -
  have c: "correlationId dead_letter_job1 = Some ''job-1''"
    by (simp add: dead_letter_job1_def)
  have p: "example_parse (content dead_letter_job1) = Some (JObj [(''sentence'', JStr ''hello'')])"
    by (simp add: dead_letter_job1_def example_parse_def body_hello_def frame_a1_def
        frame_a2_def frame_formal_def frame_no_tone_def)
  have f: "map_of [(''sentence'', JStr ''hello'')] ''sentence'' = Some (JStr ''hello'')"
    by simp
  from dead_letter_sends_fallback [where parse = example_parse and stringify = example_stringify,
      OF c waiting_server_facts(2) waiting_server_facts(3) p f]
    c waiting_server_facts(2) waiting_server_facts(3) p
  show ?thesis
    by (intro conjI)
qed

text \<open>
  C6, as the code has it: a result message whose correlation identity is registered to
  a session whose connection is open removes that identity's entry from the registry
  and no other, and handling the message once more removes nothing further.
\<close>

theorem result_entry_removed_when_open:
  assumes "correlationId m = Some c"
    and "waitingClients s c = Some w"
    and "readyState (sockets s w) = OPEN"
    and "s' = handleResultMessage s (Some m)"
  shows "waitingClients s' = (waitingClients s)(c := None) \<and>
         waitingClients (handleResultMessage s' (Some m)) = waitingClients s'"
  using assms
  by (simp add: handleResultMessage_def ack_def lookup_client_def ws_send_def Let_def)

theorem result_entry_removed_when_open_witness:
  "correlationId result_job1 = Some ''job-1'' \<and>
   waitingClients waiting_server ''job-1'' = Some 0 \<and>
   readyState (sockets waiting_server 0) = OPEN \<and>
   waitingClients (handleResultMessage waiting_server (Some result_job1)) ''job-1'' = None"
proof -
  have c: "correlationId result_job1 = Some ''job-1''"
    by (simp add: result_job1_def)
  from result_entry_removed_when_open [OF c waiting_server_facts(2) waiting_server_facts(3) refl]
  have "waitingClients (handleResultMessage waiting_server (Some result_job1)) ''job-1'' = None"
    by simp
  with c waiting_server_facts(2) waiting_server_facts(3) show ?thesis
    by (intro conjI)
qed

text \<open>
  C6 as stated fails: when the client of \<^verbatim>\<open>job-1\<close> has closed its connection, the
  result message for \<^verbatim>\<open>job-1\<close> finds the identity registered and leaves it registered.
\<close>

theorem result_entry_kept_when_closed:
  "waitingClients closed_server ''job-1'' = Some 0 \<and>
   correlationId result_job1 = Some ''job-1'' \<and>
   waitingClients (handleResultMessage closed_server (Some result_job1)) ''job-1'' = Some 0"
  by (simp add: closed_server_def on_close_def handleResultMessage_def ack_def lookup_client_def
      ws_send_def Let_def result_job1_def waiting_server_facts)

text \<open>
  C7: a result message whose correlation identity has no entry in the registry is
  acknowledged and nothing else happens: no frame is written to any connection, no
  error is raised, and the registry, the connections, the store and the publications
  are as before.
\<close>

theorem result_without_entry_is_noop:
  assumes "correlationId m = Some c" and "waitingClients s c = None"
  shows "handleResultMessage s (Some m) = s\<lparr>acked := acked s @ [m]\<rparr>"
  using assms by (simp add: handleResultMessage_def ack_def lookup_client_def Let_def)

theorem result_without_entry_is_noop_witness:
  "correlationId result_job1 = Some ''job-1'' \<and>
   waitingClients idle_server ''job-1'' = None \<and>
   handleResultMessage idle_server (Some result_job1) =
     idle_server\<lparr>acked := acked idle_server @ [result_job1]\<rparr>"
proof -
  have c: "correlationId result_job1 = Some ''job-1''"
    by (simp add: result_job1_def)
  have n: "waitingClients idle_server ''job-1'' = None"
    by (simp add: idle_server_def)
  from result_without_entry_is_noop [OF c n] c n show ?thesis
    by (intro conjI)
qed

text \<open>
  C8: a session with an empty buffer sends the append frames with the batches
  \<^verbatim>\<open>[[0.1,0.2,0.0,1.0]]\<close> and \<^verbatim>\<open>[[0.3,0.4,0.0,1.0]]\<close> and then an end-of-turn frame with
  tone \<^verbatim>\<open>Formal\<close>, while the store accepts its commands. \<open>u\<close> is the identity \<^verbatim>\<open>uuidv4()\<close>
  returns for the job, whatever it is. Exactly one message is published, to the routing
  key of the first stage, with the two batches as its buffer and the tone \<^verbatim>\<open>Formal\<close>,
  under the identity \<open>u\<close>; \<open>u\<close> is registered to the session; and the store changes at
  the key \<^verbatim>\<open>job:\<close>\<open>u\<close> only: it holds exactly \<^verbatim>\<open>{user_tone: "Formal"}\<close> there when the
  identity is new to the store, and the record it had, with \<^verbatim>\<open>user_tone\<close> set to
  \<^verbatim>\<open>Formal\<close>, otherwise.
\<close>

theorem formal_scenario:
  assumes "redis_ok s"
    and "landmarkSequences (sockets s w) = []"
    and "parse a1 = Some (JObj [(''type'', JStr ''signing_data''), (''sequence'', scenario_batch1)])"
    and "parse a2 = Some (JObj [(''type'', JStr ''signing_data''), (''sequence'', scenario_batch2)])"
    and "parse e = Some (JObj [(''type'', JStr ''end_of_sentence''), (''tone'', JStr ''Formal'')])"
    and "s' = on_messages parse stringify s w [(a1, u1), (a2, u2), (e, u)]"
  shows "published s' = published s @
           [\<lparr>exchange = JOBS_EXCHANGE, routingKey = ''recognition_task'',
             message = \<lparr>content = stringify
                          (JObj [(''landmark_data'', JArr [scenario_batch1, scenario_batch2]),
                                 (''user_tone'', JStr ''Formal'')]),
                        correlationId = Some u, replyTo = Some RESULTS_QUEUE\<rparr>\<rparr>] \<and>
         waitingClients s' = (waitingClients s)(u \<mapsto> w) \<and>
         redis s' =
           (redis s)(''job:'' @ u \<mapsto>
              (case redis s (''job:'' @ u) of
                 None \<Rightarrow> [''user_tone'' \<mapsto> ''Formal'']
               | Some h \<Rightarrow> h(''user_tone'' \<mapsto> ''Formal'')))"
proof -
  have f1: "append_frame parse a1 scenario_batch1" and f2: "append_frame parse a2 scenario_batch2"
    by (simp_all add: append_frame_def assms(3,4))
  let ?a = "set_landmarkSequences s w [scenario_batch1, scenario_batch2]"
  have a: "on_messages parse stringify s w [(a1, u1), (a2, u2)] = ?a"
    using on_messages_appends [of parse "[(a1, u1), (a2, u2)]"
        "[scenario_batch1, scenario_batch2]" stringify s w]
      f1 f2 by (simp add: assms(2))
  have eot: "end_of_turn_frame parse e (JStr ''Formal'')"
    by (simp add: end_of_turn_frame_def assms(5))
  have ok: "redis_ok ?a"
    by (simp add: set_landmarkSequences_def assms(1))
  have ne: "landmarkSequences (sockets ?a w) \<noteq> []"
    by (simp add: landmarkSequences_set)
  have tone: "or_default (JStr ''Formal'') (JStr ''Casual'') = JStr ''Formal''"
    by (simp add: or_default_def)
  have "s' = on_message parse stringify u ?a w e"
    using a by (simp add: assms(6))
  then have "s' = s\<lparr>waitingClients := (waitingClients s)(u \<mapsto> w),
       redis := (redis s)(redisKey (Some u) \<mapsto>
                  (hash_at (redis s) (redisKey (Some u)))(''user_tone'' \<mapsto> ''Formal'')),
       redis_ttl := (redis_ttl s)(redisKey (Some u) \<mapsto> 300),
       published := published s @
         [first_stage_job stringify u [scenario_batch1, scenario_batch2] (JStr ''Formal'')],
       sockets := (sockets s)(w := (sockets s w)\<lparr>landmarkSequences := []\<rparr>)\<rparr>"
    unfolding end_of_turn_with_buffer [OF ok eot tone ne]
    by (simp add: set_landmarkSequences_def)
  then show ?thesis
    by (simp add: first_stage_job_def hash_at_def redisKey_def split: option.splits)
qed

theorem formal_scenario_witness:
  "redis_ok (on_connection idle_server 0) \<and>
   landmarkSequences (sockets (on_connection idle_server 0) 0) = [] \<and>
   redis (on_connection idle_server 0) ''job:job-1'' = None \<and>
   published (on_messages example_parse example_stringify (on_connection idle_server 0) 0
                [(frame_a1, ''job-a''), (frame_a2, ''job-b''), (frame_formal, ''job-1'')]) =
     [\<lparr>exchange = ''aurasign_pipeline'', routingKey = ''recognition_task'',
       message = \<lparr>content = example_stringify
                    (JObj [(''landmark_data'',
                              JArr [JArr [JArr [JNum ''0.1'', JNum ''0.2'', JNum ''0'', JNum ''1'']],
                                    JArr [JArr [JNum ''0.3'', JNum ''0.4'', JNum ''0'', JNum ''1'']]]),
                           (''user_tone'', JStr ''Formal'')]),
                  correlationId = Some ''job-1'',
                  replyTo = Some ''aurasign_results_to_nodejs''\<rparr>\<rparr>] \<and>
   waitingClients (on_messages example_parse example_stringify (on_connection idle_server 0) 0
                [(frame_a1, ''job-a''), (frame_a2, ''job-b''), (frame_formal, ''job-1'')]) =
     [''job-1'' \<mapsto> 0] \<and>
   redis (on_messages example_parse example_stringify (on_connection idle_server 0) 0
            [(frame_a1, ''job-a''), (frame_a2, ''job-b''), (frame_formal, ''job-1'')]) =
     [''job:job-1'' \<mapsto> [''user_tone'' \<mapsto> ''Formal'']]"
proof -
  have k: "''job:'' @ ''job-1'' = ''job:job-1''"
    by simp
  have r: "redis (on_connection idle_server 0) ''job:job-1'' = None"
    by (simp add: connected_server)
  have p1: "example_parse frame_a1 =
      Some (JObj [(''type'', JStr ''signing_data''), (''sequence'', scenario_batch1)])"
    and p2: "example_parse frame_a2 =
      Some (JObj [(''type'', JStr ''signing_data''), (''sequence'', scenario_batch2)])"
    and p3: "example_parse frame_formal =
      Some (JObj [(''type'', JStr ''end_of_sentence''), (''tone'', JStr ''Formal'')])"
    by (simp_all add: example_parse_def frame_a1_def frame_a2_def frame_formal_def)
  show ?thesis
    using formal_scenario [where parse = example_parse and stringify = example_stringify,
      OF connected_server(1) connected_server(2) p1 p2 p3 refl,
      of "''job-a''" "''job-b''" "''job-1''"]
    unfolding k
    by (simp add: connected_server JOBS_EXCHANGE_def RESULTS_QUEUE_def scenario_batch1_def
        scenario_batch2_def)
qed

text \<open>
  C9: an end-of-turn frame with no \<^verbatim>\<open>tone\<close>, on a session whose buffer is not empty,
  publishes a job whose tone is \<^verbatim>\<open>Casual\<close> and seeds the store with the \<^verbatim>\<open>user_tone\<close>
  \<^verbatim>\<open>Casual\<close>; and when the barrier finds a record complete that has no \<^verbatim>\<open>user_tone\<close>,
  the payload it forwards carries the \<^verbatim>\<open>user_tone\<close> \<^verbatim>\<open>Casual\<close>.
\<close>

theorem missing_tone_is_Casual:
  assumes "redis_ok s"
    and "parse raw = Some (JObj fs)"
    and "map_of fs ''type'' = Some (JStr ''end_of_sentence'')"
    and "map_of fs ''tone'' = None"
    and "landmarkSequences (sockets s w) = buf" and "buf \<noteq> []"
    and "s' = on_message parse stringify u s w raw"
    and "redis_ok r"
    and "hash_at (redis r) (redisKey (correlationId m)) = h"
    and "h ''raw_gloss'' = Some g" and "h ''dominant_emotion'' = Some e"
    and "h ''user_tone'' = None"
    and "r' = handleAggregationNotification stringify r (Some m)"
  shows "published s' = published s @
           [\<lparr>exchange = JOBS_EXCHANGE, routingKey = ''recognition_task'',
             message = \<lparr>content = stringify
                          (JObj [(''landmark_data'', JArr buf), (''user_tone'', JStr ''Casual'')]),
                        correlationId = Some u, replyTo = Some RESULTS_QUEUE\<rparr>\<rparr>] \<and>
         hash_at (redis s') (redisKey (Some u)) ''user_tone'' = Some ''Casual'' \<and>
         published r' = published r @
           [\<lparr>exchange = JOBS_EXCHANGE, routingKey = ''gemini_task'',
             message = \<lparr>content = stringify
                          (JObj [(''raw_gloss'', JStr g), (''dominant_emotion'', JStr e),
                                 (''user_tone'', JStr ''Casual'')]),
                        correlationId = correlationId m, replyTo = replyTo m\<rparr>\<rparr>]"
proof -
  have eot: "end_of_turn_frame parse raw JUndefined"
    by (simp add: end_of_turn_frame_def assms(2,3,4))
  have tone: "or_default JUndefined (JStr ''Casual'') = JStr ''Casual''"
    by (simp add: or_default_def)
  have ne: "landmarkSequences (sockets s w) \<noteq> []"
    by (simp add: assms(5,6))
  have job: "published s' = published s @
           [\<lparr>exchange = JOBS_EXCHANGE, routingKey = ''recognition_task'',
             message = \<lparr>content = stringify
                          (JObj [(''landmark_data'', JArr buf), (''user_tone'', JStr ''Casual'')]),
                        correlationId = Some u, replyTo = Some RESULTS_QUEUE\<rparr>\<rparr>]"
    and seed: "hash_at (redis s') (redisKey (Some u)) ''user_tone'' = Some ''Casual''"
    unfolding assms(7) end_of_turn_with_buffer [OF assms(1) eot tone ne]
    by (simp_all add: first_stage_job_def assms(5) hash_at_def)
  have "next_job_payload g e h =
      JObj [(''raw_gloss'', JStr g), (''dominant_emotion'', JStr e), (''user_tone'', JStr ''Casual'')]"
    by (simp add: next_job_payload_def assms(12))
  then have "published r' = published r @
           [\<lparr>exchange = JOBS_EXCHANGE, routingKey = ''gemini_task'',
             message = \<lparr>content = stringify
                          (JObj [(''raw_gloss'', JStr g), (''dominant_emotion'', JStr e),
                                 (''user_tone'', JStr ''Casual'')]),
                        correlationId = correlationId m, replyTo = replyTo m\<rparr>\<rparr>]"
    unfolding assms(13)
    using notification_complete [of r m g e stringify] assms(8,9,10,11) by simp
  with job seed show ?thesis by simp
qed

theorem missing_tone_is_Casual_witness:
  "redis_ok buffering_server \<and>
   example_parse frame_no_tone = Some (JObj [(''type'', JStr ''end_of_sentence'')]) \<and>
   landmarkSequences (sockets buffering_server 0) = [scenario_batch1] \<and>
   redis_ok unseeded_server \<and>
   hash_at (redis unseeded_server) (redisKey (correlationId notification_job2)) =
     [''raw_gloss'' \<mapsto> ''HELLO'', ''dominant_emotion'' \<mapsto> ''happy''] \<and>
   published (on_message example_parse example_stringify ''job-1'' buffering_server 0 frame_no_tone) =
     [first_stage_job example_stringify ''job-1'' [scenario_batch1] (JStr ''Casual'')] \<and>
   published (handleAggregationNotification example_stringify unseeded_server
                (Some notification_job2)) =
     [\<lparr>exchange = JOBS_EXCHANGE, routingKey = ''gemini_task'',
       message = \<lparr>content = example_stringify
                    (JObj [(''raw_gloss'', JStr ''HELLO''), (''dominant_emotion'', JStr ''happy''),
                           (''user_tone'', JStr ''Casual'')]),
                  correlationId = Some ''job-2'', replyTo = Some RESULTS_QUEUE\<rparr>\<rparr>]"
proof -
  have p: "example_parse frame_no_tone = Some (JObj [(''type'', JStr ''end_of_sentence'')])"
    by (simp add: example_parse_def frame_a1_def frame_a2_def frame_formal_def frame_no_tone_def)
  have ty: "map_of [(''type'', JStr ''end_of_sentence'')] ''type'' = Some (JStr ''end_of_sentence'')"
    and tn: "map_of [(''type'', JStr ''end_of_sentence'')] ''tone'' = None"
    and ne: "[scenario_batch1] \<noteq> []"
    by simp_all
  have g: "[''raw_gloss'' \<mapsto> ''HELLO'', ''dominant_emotion'' \<mapsto> ''happy''] ''raw_gloss'' =
      Some ''HELLO''"
    and e: "[''raw_gloss'' \<mapsto> ''HELLO'', ''dominant_emotion'' \<mapsto> ''happy'']
      ''dominant_emotion'' = Some ''happy''"
    and t: "[''raw_gloss'' \<mapsto> ''HELLO'', ''dominant_emotion'' \<mapsto> ''happy''] ''user_tone'' = None"
    by simp_all
  have c: "correlationId notification_job2 = Some ''job-2''"
    and rt: "replyTo notification_job2 = Some RESULTS_QUEUE"
    by (simp_all add: notification_job2_def)
  from missing_tone_is_Casual
      [where parse = example_parse and stringify = example_stringify and u = "''job-1''",
        OF buffering_server_facts(1) p ty tn buffering_server_facts(2) ne refl
          unseeded_server_facts(1) unseeded_server_facts(3) g e t refl]
  have "published (on_message example_parse example_stringify ''job-1'' buffering_server 0
                     frame_no_tone) =
     [first_stage_job example_stringify ''job-1'' [scenario_batch1] (JStr ''Casual'')]"
    and "published (handleAggregationNotification example_stringify unseeded_server
                (Some notification_job2)) =
     [\<lparr>exchange = JOBS_EXCHANGE, routingKey = ''gemini_task'',
       message = \<lparr>content = example_stringify
                    (JObj [(''raw_gloss'', JStr ''HELLO''), (''dominant_emotion'', JStr ''happy''),
                           (''user_tone'', JStr ''Casual'')]),
                  correlationId = Some ''job-2'', replyTo = Some RESULTS_QUEUE\<rparr>\<rparr>]"
    by (simp_all add: buffering_server_facts(3) unseeded_server_facts(2) first_stage_job_def c rt)
  with buffering_server_facts(1) p buffering_server_facts(2) unseeded_server_facts(1)
    unseeded_server_facts(3)
  show ?thesis
    by (intro conjI)
qed

text \<open>
  C10: for a result message whose correlation identity is registered to an open
  session, the frame written to that session is the body of the message as it is; no
  other connection is written to.
\<close>

theorem result_forwarded_verbatim:
  assumes "correlationId m = Some c"
    and "waitingClients s c = Some w"
    and "readyState (sockets s w) = OPEN"
  shows "sockets (handleResultMessage s (Some m)) =
     (sockets s)(w := (sockets s w)\<lparr>sent := sent (sockets s w) @ [content m]\<rparr>)"
  using assms
  by (simp add: handleResultMessage_def ack_def lookup_client_def ws_send_def Let_def)

theorem result_forwarded_verbatim_witness:
  "correlationId result_job1 = Some ''job-1'' \<and>
   waitingClients waiting_server ''job-1'' = Some 0 \<and>
   readyState (sockets waiting_server 0) = OPEN \<and>
   sent (sockets (handleResultMessage waiting_server (Some result_job1)) 0) =
     [''{\"audioData\":\"UklGRg==\",\"sentence\":\"hello\"}'']"
proof -
  have c: "correlationId result_job1 = Some ''job-1''"
    by (simp add: result_job1_def)
  have "sent (sockets (handleResultMessage waiting_server (Some result_job1)) 0) =
     [''{\"audioData\":\"UklGRg==\",\"sentence\":\"hello\"}'']"
    unfolding result_forwarded_verbatim [OF c waiting_server_facts(2) waiting_server_facts(3)]
    by (simp add: waiting_server_facts(4) result_job1_def)
  with c waiting_server_facts(2) waiting_server_facts(3) show ?thesis
    by (intro conjI)
qed

end
